theory Spec2Isabelle
  imports Complex_Main "HOL-Library.Char_ord" "HOL-Library.Sublist"
begin

section \<open>Python values, dictionaries and exceptions\<close>

text \<open>
  The module \<^verbatim>\<open>kernelci/runtime/lava/__init__.py\<close> works on dictionaries with string
  keys whose values are strings, integers or \<^verbatim>\<open>None\<close>. A Python \<^verbatim>\<open>str\<close> is a
  \<^typ>\<open>string\<close>, one \<^typ>\<open>char\<close> per character; a Python \<^verbatim>\<open>int\<close> is an
  \<^typ>\<open>int\<close>. Every exception the code can raise is a value of \<open>error\<close>, and a
  function that can raise returns \<open>error + 'a\<close> with \<open>Inl\<close> for the exception.
\<close>

datatype pyval = PNone | PInt int | PStr string

datatype error = KeyError string | TypeError | AttributeError

type_synonym pydict = "string \<rightharpoonup> pyval"

text \<open>Truth value of an object, as \<^verbatim>\<open>if x:\<close> and \<^verbatim>\<open>x or y\<close> test it.\<close>

fun truthy :: "pyval \<Rightarrow> bool" where
  "truthy PNone = False"
| "truthy (PInt i) = (i \<noteq> 0)"
| "truthy (PStr s) = (s \<noteq> [])"

text \<open>\<^verbatim>\<open>d[k]\<close> raises \<^verbatim>\<open>KeyError\<close> on a missing key; \<^verbatim>\<open>d.get(k)\<close> gives \<^verbatim>\<open>None\<close>.\<close>

definition getitem :: "pydict \<Rightarrow> string \<Rightarrow> error + pyval" where
  "getitem d k = (case d k of None \<Rightarrow> Inl (KeyError k) | Some v \<Rightarrow> Inr v)"

definition dict_get :: "pydict \<Rightarrow> string \<Rightarrow> pyval" where
  "dict_get d k = (case d k of None \<Rightarrow> PNone | Some v \<Rightarrow> v)"

text \<open>\<^verbatim>\<open>d.get(k, default)\<close> on a dictionary of plain values.\<close>

definition get_default :: "('k \<rightharpoonup> 'v) \<Rightarrow> 'k \<Rightarrow> 'v \<Rightarrow> 'v" where
  "get_default d k dflt = (case d k of None \<Rightarrow> dflt | Some v \<Rightarrow> v)"

text \<open>Sequencing of two steps, the second one skipped when the first one raises.\<close>

definition bind :: "error + 'a \<Rightarrow> ('a \<Rightarrow> error + 'b) \<Rightarrow> error + 'b" where
  "bind m f = (case m of Inl e \<Rightarrow> Inl e | Inr v \<Rightarrow> f v)"

section \<open>String operations\<close>

text \<open>\<^verbatim>\<open>sep.join(xs)\<close> on strings.\<close>

fun str_join :: "string \<Rightarrow> string list \<Rightarrow> string" where
  "str_join sep [] = []"
| "str_join sep [x] = x"
| "str_join sep (x # y # ys) = x @ sep @ str_join sep (y # ys)"

text \<open>
  \<^verbatim>\<open>sep.join(xs)\<close> on objects: \<^verbatim>\<open>TypeError\<close> unless every item is a \<^verbatim>\<open>str\<close>.
\<close>

fun strs_of :: "pyval list \<Rightarrow> string list option" where
  "strs_of [] = Some []"
| "strs_of (PStr s # vs) = (case strs_of vs of None \<Rightarrow> None | Some ss \<Rightarrow> Some (s # ss))"
| "strs_of (_ # vs) = None"

definition join_vals :: "string \<Rightarrow> pyval list \<Rightarrow> error + string" where
  "join_vals sep vs = (case strs_of vs of None \<Rightarrow> Inl TypeError | Some ss \<Rightarrow> Inr (str_join sep ss))"

text \<open>\<^verbatim>\<open>s.replace(old, new)\<close> for one-character \<^verbatim>\<open>old\<close> and \<^verbatim>\<open>new\<close>.\<close>

definition replace_char :: "char \<Rightarrow> char \<Rightarrow> string \<Rightarrow> string" where
  "replace_char old new s = map (\<lambda>c. if c = old then new else c) s"

text \<open>\<^verbatim>\<open>s.strip(c)\<close> for a one-character \<^verbatim>\<open>c\<close>: removed at both ends.\<close>

definition strip_char :: "char \<Rightarrow> string \<Rightarrow> string" where
  "strip_char c s = rev (dropWhile (\<lambda>x. x = c) (rev (dropWhile (\<lambda>x. x = c) s)))"

definition startswith :: "string \<Rightarrow> string \<Rightarrow> bool" where
  "startswith s p = prefix p s"

text \<open>\<^verbatim>\<open>a or b\<close> where \<^verbatim>\<open>a\<close> is the result of \<^verbatim>\<open>dict.get\<close> on a table of strings.\<close>

definition or_else :: "string option \<Rightarrow> string \<Rightarrow> string" where
  "or_else a b = (case a of None \<Rightarrow> b | Some v \<Rightarrow> if v \<noteq> [] then v else b)"

section \<open>Priority scaling\<close>

text \<open>
  The fields of the runtime configuration and of the plan configuration that
  \<^verbatim>\<open>_get_priority\<close> reads. The configuration classes are declared elsewhere in the
  package; their numeric attributes are Python integers or \<^verbatim>\<open>None\<close>.
\<close>

record runtime_config =
  priority :: "int option"
  priority_min :: "int option"
  priority_max :: "int option"

record plan_config =
  params :: "string \<rightharpoonup> int"

text \<open>
  \<^verbatim>\<open>a / b\<close> on two integers is Python's true division: the double nearest to the
  quotient, or \<^verbatim>\<open>OverflowError\<close> when the quotient is beyond the doubles. Adding an
  integer to a double converts the integer and rounds the sum to a double again. The
  model computes with the exact quotient and the exact sum and has no overflow: it stands
  for the code only where the rounding cannot change the result of \<^verbatim>\<open>int()\<close>, which
  \<open>rounded_range_value\<close> below proves for a range within \<open>[- 2 ^ 40, 2 ^ 40]\<close>. For
  larger operands the doubles of the code and the model differ, and every statement that
  depends on the value of this arithmetic bounds its operands.
  \<^verbatim>\<open>int(x)\<close> on a float truncates towards zero.
\<close>

definition true_div :: "int \<Rightarrow> int \<Rightarrow> real" where
  "true_div a b = of_int a / of_int b"

definition py_int :: "real \<Rightarrow> int" where
  "py_int x = (if x < 0 then - \<lfloor>- x\<rfloor> else \<lfloor>x\<rfloor>)"

definition is_set :: "int option \<Rightarrow> bool" where
  "is_set v = (case v of None \<Rightarrow> False | Some x \<Rightarrow> x \<noteq> 0)"

definition get_priority :: "runtime_config \<Rightarrow> plan_config \<Rightarrow> int" where
  "get_priority config plan_cfg =
     (let prio = get_default (params plan_cfg) ''priority'' 20 in
      if is_set (priority config) then
        py_int (true_div (prio * the (priority config)) 100)
      else if priority_max config \<noteq> None \<and> priority_min config \<noteq> None then
        (let prio_range = the (priority_max config) - the (priority_min config);
             prio_min = the (priority_min config)
         in py_int (true_div (prio * prio_range) 100 + of_int prio_min))
      else prio)"

section \<open>Regular expressions\<close>

text \<open>
  The fragment of Python's \<^verbatim>\<open>re\<close> syntax that \<^verbatim>\<open>CROS_CONFIG_RE\<close> is written in:
  literal text, \<^verbatim>\<open>.\<close> (any character but a newline), \<^verbatim>\<open>[class]+\<close> (greedy),
  concatenation, \<^verbatim>\<open>(...)\<close> (a numbered capturing group) and \<^verbatim>\<open>(...)?\<close>
  (greedy option).
\<close>

datatype regex =
    Lit string
  | Dot
  | Plus "char \<Rightarrow> bool"
  | Cat regex regex
  | Opt regex
  | Grp nat regex

type_synonym groups = "nat \<Rightarrow> string option"

text \<open>
  \<open>rmatch r s g\<close> lists every way \<open>r\<close> can match at the start of \<open>s\<close>, as the rest
  of the input and the groups captured, in the order in which the backtracking matcher
  of \<^verbatim>\<open>re\<close> tries them: a greedy \<^verbatim>\<open>+\<close> takes the longest run first and gives
  characters back one at a time, a greedy \<^verbatim>\<open>?\<close> tries its body before skipping it.
\<close>

fun rmatch :: "regex \<Rightarrow> string \<Rightarrow> groups \<Rightarrow> (string \<times> groups) list" where
  "rmatch (Lit l) s g = (if prefix l s then [(drop (length l) s, g)] else [])"
| "rmatch Dot s g =
     (case s of [] \<Rightarrow> [] | c # cs \<Rightarrow> if c = CHR 0x0A then [] else [(cs, g)])"
| "rmatch (Plus cls) s g =
     map (\<lambda>k. (drop k s, g)) (rev [1 ..< Suc (length (takeWhile cls s))])"
| "rmatch (Cat r1 r2) s g =
     concat (map (\<lambda>(s', g'). rmatch r2 s' g') (rmatch r1 s g))"
| "rmatch (Opt r) s g = rmatch r s g @ [(s, g)]"
| "rmatch (Grp i r) s g =
     map (\<lambda>(s', g'). (s', g'(i \<mapsto> take (length s - length s') s))) (rmatch r s g)"

text \<open>
  The words a pattern can consume, without regard to order or groups: the declarative
  reading of the same syntax, against which the matcher is checked below.
\<close>

fun words :: "regex \<Rightarrow> string set" where
  "words (Lit l) = {l}"
| "words Dot = {[c] |c. c \<noteq> CHR 0x0A}"
| "words (Plus cls) = {w. w \<noteq> [] \<and> list_all cls w}"
| "words (Cat r1 r2) = {u @ v |u v. u \<in> words r1 \<and> v \<in> words r2}"
| "words (Opt r) = insert [] (words r)"
| "words (Grp i r) = words r"

text \<open>
  \<^verbatim>\<open>pattern.match(s)\<close>: the first match at the start of \<open>s\<close> (nothing anchors the end),
  or \<^verbatim>\<open>None\<close>. The match object is represented by its groups.
\<close>

definition re_match :: "regex \<Rightarrow> string \<Rightarrow> groups option" where
  "re_match r s = (case rmatch r s (\<lambda>_. None) of [] \<Rightarrow> None | (rest, g) # _ \<Rightarrow> Some g)"

fun seq :: "regex list \<Rightarrow> regex" where
  "seq [] = Lit []"
| "seq [r] = r"
| "seq (r # rs) = Cat r (seq rs)"

definition in_range :: "char \<Rightarrow> char \<Rightarrow> char \<Rightarrow> bool" where
  "in_range lo hi c = (lo \<le> c \<and> c \<le> hi)"

section \<open>Shortened names of ChromeOS jobs\<close>

text \<open>
  \<^verbatim>\<open>
  CROS_CONFIG_RE = re.compile(r'cros://chromeos-([0-9.]+)/([a-z0-9_]+)/([a-z0-9-._]+).flavour.config(\+[a-z0-9-+]+)?')
  \<close>
  In the third class \<^verbatim>\<open>-\<close> follows a complete range, so it stands for itself, as
  \<^verbatim>\<open>.\<close> and \<^verbatim>\<open>_\<close> do; likewise in the fourth.
\<close>

definition cls_kver :: "char \<Rightarrow> bool" where
  "cls_kver c = (in_range CHR ''0'' CHR ''9'' c \<or> c = CHR ''.'')"

definition cls_arch :: "char \<Rightarrow> bool" where
  "cls_arch c = (in_range CHR ''a'' CHR ''z'' c \<or> in_range CHR ''0'' CHR ''9'' c \<or> c = CHR ''_'')"

definition cls_flav :: "char \<Rightarrow> bool" where
  "cls_flav c = (in_range CHR ''a'' CHR ''z'' c \<or> in_range CHR ''0'' CHR ''9'' c
                 \<or> c = CHR ''-'' \<or> c = CHR ''.'' \<or> c = CHR ''_'')"

definition cls_frag :: "char \<Rightarrow> bool" where
  "cls_frag c = (in_range CHR ''a'' CHR ''z'' c \<or> in_range CHR ''0'' CHR ''9'' c
                 \<or> c = CHR ''-'' \<or> c = CHR ''+'')"

definition CROS_CONFIG_RE :: regex where
  "CROS_CONFIG_RE = seq
     [Lit ''cros://chromeos-'', Grp 1 (Plus cls_kver),
      Lit ''/'', Grp 2 (Plus cls_arch),
      Lit ''/'', Grp 3 (Plus cls_flav),
      Dot, Lit ''flavour'', Dot, Lit ''config'',
      Opt (Grp 4 (Cat (Lit ''+'') (Plus cls_frag)))]"

definition CROS_FLAVOURS :: "string \<rightharpoonup> string" where
  "CROS_FLAVOURS = map_of
     [(''chromeos-amd-stoneyridge'', ''ston''),
      (''chromeos-intel-denverton'', ''denv''),
      (''chromeos-intel-pineview'', ''pine''),
      (''chromiumos-arm'', ''arm''),
      (''chromiumos-arm64'', ''arm64''),
      (''chromiumos-mediatek'', ''mtk''),
      (''chromiumos-qualcomm'', ''qcom''),
      (''chromiumos-rockchip'', ''rk32''),
      (''chromiumos-rockchip64'', ''rk64''),
      (''chromiumos-x86_64'', ''x86'')]"

definition CROS_DEVICE_TYPES :: "string \<rightharpoonup> string" where
  "CROS_DEVICE_TYPES = map_of
     [(''hp-x360-12b-ca0500na-n4000-octopus_chromeos'', ''octopus-n4000''),
      (''hp-x360-12b-ca0010nr-n4020-octopus_chromeos'', ''octopus-n4020''),
      (''qemu_x86_64-uefi-chromeos'', ''qemu-x86'')]"

text \<open>
  \<^verbatim>\<open>
  def _shorten_cros_defconfig(self, defconfig):
      kver, arch, flav, frag = CROS_CONFIG_RE.match(defconfig).groups()
      frag = frag.strip('+').replace('+', '-') if frag else ''
      flav = CROS_FLAVOURS.get(flav) or flav
      return '-'.join((arch, flav, kver, frag))
  \<close>
  When nothing matches, \<^verbatim>\<open>match\<close> returns \<^verbatim>\<open>None\<close> and \<^verbatim>\<open>.groups()\<close> raises
  \<^verbatim>\<open>AttributeError\<close>. A group that took no part in the match is \<^verbatim>\<open>None\<close>.
\<close>

definition opt_val :: "string option \<Rightarrow> pyval" where
  "opt_val x = (case x of None \<Rightarrow> PNone | Some s \<Rightarrow> PStr s)"

definition shorten_cros_defconfig :: "string \<Rightarrow> error + string" where
  "shorten_cros_defconfig defconfig =
     (case re_match CROS_CONFIG_RE defconfig of
        None \<Rightarrow> Inl AttributeError
      | Some m \<Rightarrow>
          (let kver = m 1; arch = m 2; flav = m 3; frag = m 4;
               frag' = (case frag of
                          None \<Rightarrow> []
                        | Some f \<Rightarrow> if f \<noteq> []
                                    then replace_char CHR ''+'' CHR ''-'' (strip_char CHR ''+'' f)
                                    else []);
               flav' = (case flav of
                          None \<Rightarrow> None
                        | Some f \<Rightarrow> Some (or_else (CROS_FLAVOURS f) f))
           in join_vals ''-'' [opt_val arch, opt_val flav', opt_val kver, PStr frag']))"

text \<open>
  \<^verbatim>\<open>
  def _shorten_cros_device_type(self, device_type):
      return CROS_DEVICE_TYPES.get(device_type) or device_type
  \<close>
  A key that is no string is not in the table.
\<close>

definition shorten_cros_device_type :: "pyval \<Rightarrow> pyval" where
  "shorten_cros_device_type device_type =
     (case device_type of
        PStr d \<Rightarrow> PStr (or_else (CROS_DEVICE_TYPES d) d)
      | _ \<Rightarrow> device_type)"

text \<open>
  \<^verbatim>\<open>
  def _shorten_cros_name(self, params):
      defconfig_full = params['defconfig_full']
      if defconfig_full.startswith('cros:'):
          return '-'.join((
              params['tree'], params['git_branch'], params['git_describe'],
              params['arch'], self._shorten_cros_defconfig(defconfig_full),
              params['build_environment'],
              self._shorten_cros_device_type(params['device_type']),
              params['plan'],
          )).replace('/', '-')
      else:
          return params['name']
  \<close>
  The items of the tuple are evaluated from left to right, so the first missing key or
  the failed match decides which exception is raised. An object that is no string has
  no \<^verbatim>\<open>startswith\<close>.
\<close>

definition shorten_cros_name :: "pydict \<Rightarrow> error + pyval" where
  "shorten_cros_name ps =
     bind (getitem ps ''defconfig_full'') (\<lambda>defconfig_full.
       case defconfig_full of
         PStr d \<Rightarrow>
           if startswith d ''cros:'' then
             bind (getitem ps ''tree'') (\<lambda>tree.
             bind (getitem ps ''git_branch'') (\<lambda>git_branch.
             bind (getitem ps ''git_describe'') (\<lambda>git_describe.
             bind (getitem ps ''arch'') (\<lambda>arch.
             bind (shorten_cros_defconfig d) (\<lambda>defconfig.
             bind (getitem ps ''build_environment'') (\<lambda>build_environment.
             bind (getitem ps ''device_type'') (\<lambda>device_type.
             bind (getitem ps ''plan'') (\<lambda>plan.
             bind (join_vals ''-''
                     [tree, git_branch, git_describe, arch, PStr defconfig,
                      build_environment, shorten_cros_device_type device_type, plan])
               (\<lambda>joined. Inr (PStr (replace_char CHR ''/'' CHR ''-'' joined)))))))))))
           else getitem ps ''name''
       | _ \<Rightarrow> Inl AttributeError)"

text \<open>
  \<^verbatim>\<open>
  def job_file_name(self, params):
      return '.'.join([params['name'], 'yaml'])
  \<close>
\<close>

definition job_file_name :: "pydict \<Rightarrow> error + string" where
  "job_file_name ps =
     bind (getitem ps ''name'') (\<lambda>name. join_vals ''.'' [name, PStr ''yaml''])"

section \<open>Callback parameters\<close>

text \<open>
  \<^verbatim>\<open>
  def _add_callback_params(self, params, opts):
      callback_id = opts.get('id')
      if not callback_id:
          return
      callback_type = opts.get('type')
      if callback_type == 'kernelci':
          lava_cb = 'boot' if params['plan'] == 'boot' else 'test'
          params['callback_name'] = '/'.join(['lava', lava_cb])
      params.update({
          'callback': callback_id,
          'callback_url': opts['url'],
          'callback_dataset': opts['dataset'],
          'callback_type': callback_type,
      })
  \<close>
  The function mutates \<^verbatim>\<open>params\<close>: the model returns the outcome (an exception or
  nothing) together with the dictionary as the call leaves it, so that an assignment
  made before an exception stays visible.
\<close>

definition add_callback_params :: "pydict \<Rightarrow> pydict \<Rightarrow> (error + unit) \<times> pydict" where
  "add_callback_params ps opts =
     (let callback_id = dict_get opts ''id'' in
      if \<not> truthy callback_id then (Inr (), ps)
      else
        let callback_type = dict_get opts ''type'';
            named =
              (if callback_type = PStr ''kernelci'' then
                 (case getitem ps ''plan'' of
                    Inl e \<Rightarrow> Inl e
                  | Inr plan \<Rightarrow>
                      let lava_cb = (if plan = PStr ''boot'' then ''boot'' else ''test'')
                      in Inr (ps(''callback_name'' \<mapsto> PStr (str_join ''/'' [''lava'', lava_cb]))))
               else Inr ps)
        in case named of
             Inl e \<Rightarrow> (Inl e, ps)
           | Inr ps1 \<Rightarrow>
               (case getitem opts ''url'' of
                  Inl e \<Rightarrow> (Inl e, ps1)
                | Inr url \<Rightarrow>
                    (case getitem opts ''dataset'' of
                       Inl e \<Rightarrow> (Inl e, ps1)
                     | Inr dataset \<Rightarrow>
                         (Inr (), ps1(''callback'' \<mapsto> callback_id,
                                      ''callback_url'' \<mapsto> url,
                                      ''callback_dataset'' \<mapsto> dataset,
                                      ''callback_type'' \<mapsto> callback_type)))))"

section \<open>Priority scaling: properties\<close>

lemma py_int_of_int [simp]: "py_int (of_int n) = n"
  by (simp add: py_int_def)

lemma py_int_nonneg: "0 \<le> x \<Longrightarrow> py_int x = \<lfloor>x\<rfloor>"
  by (simp add: py_int_def)

lemma py_int_bounds:
  assumes "of_int lo \<le> x" and "x \<le> of_int hi"
  shows "lo \<le> py_int x \<and> py_int x \<le> hi"
proof (cases "x < 0")
  case True
  have "- x \<le> of_int (- lo)" using assms(1) by simp
  then have up: "\<lfloor>- x\<rfloor> \<le> - lo" by (metis floor_mono floor_of_int)
  have "of_int (- hi) \<le> - x" using assms(2) by simp
  then have "- hi \<le> \<lfloor>- x\<rfloor>" by (simp only: le_floor_iff)
  with up True show ?thesis by (simp add: py_int_def)
next
  case False
  have "lo \<le> \<lfloor>x\<rfloor>" using assms(1) by (simp only: le_floor_iff)
  moreover have "\<lfloor>x\<rfloor> \<le> hi" using assms(2) by (metis floor_mono floor_of_int)
  ultimately show ?thesis using False by (simp add: py_int_def)
qed

lemma scaled_between:
  fixes p d :: int
  assumes "0 \<le> p" and "p \<le> 100" and "0 \<le> d"
  shows "0 \<le> true_div (p * d) 100 \<and> true_div (p * d) 100 \<le> of_int d"
proof -
  have "0 \<le> p * d" using assms by simp
  then have "(0::real) \<le> of_int (p * d)" by (simp only: of_int_0_le_iff)
  then have lo: "0 \<le> true_div (p * d) 100" by (simp add: true_div_def)
  have "p * d \<le> 100 * d" using assms by (simp add: mult_right_mono)
  then have "(of_int (p * d) :: real) \<le> of_int (100 * d)" by (simp only: of_int_le_iff)
  then have "true_div (p * d) 100 \<le> of_int d" by (simp add: true_div_def)
  with lo show ?thesis by simp
qed

text \<open>
  Claim C1 (as amended). For a nominal priority \<open>p\<close> in \<open>[0, 100]\<close> and a flat scale
  factor \<open>s\<close> in \<open>[1, 100]\<close>, the effective priority is \<open>\<lfloor>p * s / 100\<rfloor>\<close> and lies in
  \<open>[0, p]\<close>. The factor \<open>0\<close> is left out: \<^verbatim>\<open>if self.config.priority:\<close> is false
  for it.
\<close>

theorem get_priority_flat_scale:
  assumes "0 \<le> p" and "p \<le> 100" and "1 \<le> s" and "s \<le> 100"
    and "get_default (params plan_cfg) ''priority'' 20 = p"
    and "priority config = Some s"
  shows "get_priority config plan_cfg = \<lfloor>of_int p * of_int s / (100 :: real)\<rfloor>
         \<and> 0 \<le> get_priority config plan_cfg \<and> get_priority config plan_cfg \<le> p"
proof -
  have eq: "get_priority config plan_cfg = py_int (true_div (p * s) 100)"
    using assms by (simp add: get_priority_def is_set_def)
  have s0: "0 \<le> s" using assms(3) by simp
  have b: "0 \<le> true_div (p * s) 100 \<and> true_div (p * s) 100 \<le> of_int s"
    using scaled_between [OF assms(1) assms(2) s0] .
  have ps: "p * s \<le> p * 100" using assms(1) assms(4) by (rule mult_left_mono [rotated])
  have "(of_int (p * s) :: real) \<le> of_int (p * 100)" using ps by (simp only: of_int_le_iff)
  then have up: "true_div (p * s) 100 \<le> of_int p" by (simp add: true_div_def)
  have lo: "(of_int 0 :: real) \<le> true_div (p * s) 100" using b by simp
  have "0 \<le> py_int (true_div (p * s) 100) \<and> py_int (true_div (p * s) 100) \<le> p"
    using py_int_bounds [OF lo up] .
  moreover have "py_int (true_div (p * s) 100) = \<lfloor>of_int p * of_int s / (100 :: real)\<rfloor>"
    using b by (simp add: py_int_nonneg true_div_def)
  ultimately show ?thesis using eq by simp
qed

theorem get_priority_flat_scale_witness:
  "get_priority \<lparr>priority = Some 50, priority_min = None, priority_max = None\<rparr>
     \<lparr>params = [''priority'' \<mapsto> 20]\<rparr> = 10"
  using get_priority_flat_scale [of 20 50 "\<lparr>params = [''priority'' \<mapsto> 20]\<rparr>"
      "\<lparr>priority = Some 50, priority_min = None, priority_max = None\<rparr>"]
  by (simp add: get_default_def)

text \<open>
  Claim C1 as stated also covers \<open>s = 0\<close>. There the flat branch is not taken, and with
  no range configured the nominal priority \<open>20\<close> comes back, not \<open>\<lfloor>20 * 0 / 100\<rfloor> = 0\<close>.
\<close>

theorem get_priority_flat_scale_zero_counterexample:
  "get_priority \<lparr>priority = Some 0, priority_min = None, priority_max = None\<rparr>
     \<lparr>params = [''priority'' \<mapsto> 20]\<rparr> = 20
   \<and> \<lfloor>of_int 20 * of_int 0 / (100 :: real)\<rfloor> = 0"
  by (simp add: get_priority_def is_set_def get_default_def)

text \<open>
  The doubles of the code. Let \<open>fl\<close> round a real number to a double: in the normal
  range the relative error is at most \<open>2 ^ - 53\<close>, and an integer up to \<open>2 ^ 53\<close> in
  magnitude is a double itself. The exact value \<open>p * d / 100 + priority_min\<close> is a
  multiple of \<open>1 / 100\<close>: an integer, and then no rounding happens at all, or at least
  \<open>1 / 100\<close> away from the next integer, more than the two roundings can add up to
  while the range lies within \<open>[- 2 ^ 40, 2 ^ 40]\<close>. So there \<^verbatim>\<open>int()\<close> of the
  double the code computes is the value of the model.
\<close>

lemma py_int_between:
  assumes "of_int a < x" and "x < of_int a + 1"
  shows "py_int x = (if 0 \<le> a then a else a + 1)"
proof (cases "0 \<le> a")
  case True
  then have "(0::real) \<le> of_int a" by simp
  with assms(1) have "0 \<le> x" by simp
  then have "py_int x = \<lfloor>x\<rfloor>" by (rule py_int_nonneg)
  moreover have "\<lfloor>x\<rfloor> = a" using assms by (intro floor_unique) simp_all
  ultimately show ?thesis using True by simp
next
  case False
  then have "a + 1 \<le> 0" by simp
  then have "(of_int (a + 1) :: real) \<le> 0" by (simp only: of_int_le_0_iff)
  with assms(2) have neg: "x < 0" by simp
  have "\<lfloor>- x\<rfloor> = - a - 1" using assms by (intro floor_unique) simp_all
  with neg False show ?thesis by (simp add: py_int_def)
qed

lemma hundredths_between:
  fixes k :: int
  assumes "\<not> 100 dvd k"
  shows "of_int (k div 100) + 1 / 100 \<le> (of_int k / 100 :: real)
         \<and> (of_int k / 100 :: real) \<le> of_int (k div 100) + 99 / 100"
proof -
  have m: "1 \<le> k mod 100 \<and> k mod 100 \<le> 99"
    using assms by (simp add: dvd_eq_mod_eq_0) presburger
  have k: "k = 100 * (k div 100) + k mod 100" by simp
  have "(of_int k :: real) = 100 * of_int (k div 100) + of_int (k mod 100)"
    by (subst k) (simp only: of_int_add of_int_mult of_int_numeral)
  moreover have "(1::real) \<le> of_int (k mod 100)" and "(of_int (k mod 100) :: real) \<le> 99"
    using m by simp_all
  ultimately show ?thesis by simp
qed


lemma rounded_range_value:
  fixes fl :: "real \<Rightarrow> real" and p mn mx :: int
  assumes rel: "\<And>x. 1 / 1024 \<le> \<bar>x\<bar> \<Longrightarrow> \<bar>x\<bar> \<le> 2 ^ 42 \<Longrightarrow> \<bar>fl x - x\<bar> \<le> \<bar>x\<bar> / 2 ^ 53"
    and exact: "\<And>k :: int. \<bar>k\<bar> \<le> 2 ^ 53 \<Longrightarrow> fl (of_int k) = of_int k"
    and p: "0 \<le> p" "p \<le> 100"
    and r: "mn \<le> mx" "- (2 ^ 40) \<le> mn" "mx \<le> 2 ^ 40"
  shows "py_int (fl (fl (of_int (p * (mx - mn)) / 100) + fl (of_int mn)))
         = py_int (true_div (p * (mx - mn)) 100 + of_int mn)"
proof -
  define n where "n = p * (mx - mn)"
  define q :: real where "q = of_int n / 100"
  define y :: real where "y = q + of_int mn"
  have d: "0 \<le> mx - mn" using r(1) by simp
  have d41: "mx - mn \<le> 2 ^ 41" using r by simp
  have qb: "0 \<le> q \<and> q \<le> of_int (mx - mn)"
    using scaled_between [OF p d] by (simp add: q_def n_def true_div_def)
  have "(of_int (mx - mn) :: real) \<le> of_int (2 ^ 41)" using d41 by (simp only: of_int_le_iff)
  then have q41: "q \<le> 2 ^ 41" using qb by simp
  have ylo: "of_int mn \<le> y" and yup: "y \<le> of_int mx" using qb by (simp_all add: y_def)
  have "(of_int (- (2 ^ 40)) :: real) \<le> of_int mn" using r(2) by (simp only: of_int_le_iff)
  moreover have "(of_int mx :: real) \<le> of_int (2 ^ 40)" using r(3) by (simp only: of_int_le_iff)
  ultimately have y40: "\<bar>y\<bar> \<le> 2 ^ 40" using ylo yup by simp
  have fm: "fl (of_int mn) = of_int mn" using r by (intro exact) simp
  have goal: "true_div (p * (mx - mn)) 100 + of_int mn = y"
    by (simp add: y_def q_def n_def true_div_def)
  show ?thesis
  proof (cases "100 dvd n")
    case True
    then obtain j where j: "n = 100 * j" by (auto simp add: dvd_def)
    have qj: "q = of_int j" by (simp add: q_def j)
    have "(of_int j :: real) \<le> of_int (2 ^ 41)" using q41 qj by simp
    then have "j \<le> 2 ^ 41" by (simp only: of_int_le_iff)
    moreover have "(of_int 0 :: real) \<le> of_int j" using qb qj by simp
    then have "0 \<le> j" by (simp only: of_int_le_iff)
    ultimately have "\<bar>j\<bar> \<le> 2 ^ 53" by simp
    then have f1: "fl (of_int j) = of_int j" by (rule exact)
    have yj: "y = of_int (j + mn)" by (simp add: y_def qj)
    have "(of_int (j + mn) :: real) \<le> of_int mx" using yup yj by simp
    then have "j + mn \<le> mx" by (simp only: of_int_le_iff)
    moreover have "(of_int mn :: real) \<le> of_int (j + mn)" using ylo yj by simp
    then have "mn \<le> j + mn" by (simp only: of_int_le_iff)
    ultimately have "\<bar>j + mn\<bar> \<le> 2 ^ 53" using r by simp
    then have "fl (of_int (j + mn)) = of_int (j + mn)" by (rule exact)
    then have "fl (fl (of_int n / 100) + fl (of_int mn)) = y"
      using f1 fm qj yj by (simp add: q_def)
    then show ?thesis unfolding goal by (simp add: n_def)
  next
    case False
    define f1 where "f1 = fl q"
    define s where "s = f1 + of_int mn"
    define f2 where "f2 = fl s"
    define k where "k = n + 100 * mn"
    have "100 dvd 100 * mn" by simp
    then have "100 dvd k \<longleftrightarrow> 100 dvd n" unfolding k_def by (rule dvd_add_left_iff)
    then have nd: "\<not> 100 dvd k" using False by simp
    have yk: "y = of_int k / 100" by (simp add: y_def q_def k_def)
    from hundredths_between [OF nd] have
      h: "of_int (k div 100) + 1 / 100 \<le> y" "y \<le> of_int (k div 100) + 99 / 100"
      by (simp_all add: yk)
    have "q = of_int n / 100" by (simp add: q_def)
    with hundredths_between [OF False] have "of_int (n div 100) + 1 / 100 \<le> q" by simp
    moreover have "0 \<le> n div 100" using p d by (simp add: n_def pos_imp_zdiv_nonneg_iff)
    then have "(0::real) \<le> of_int (n div 100)" by (simp only: of_int_0_le_iff)
    ultimately have q100: "1 / 100 \<le> q" by linarith
    have q1: "1 / 1024 \<le> \<bar>q\<bar>" using q100 by linarith
    have q2: "\<bar>q\<bar> \<le> 2 ^ 42" using qb q41 by simp
    have "\<bar>f1 - q\<bar> \<le> \<bar>q\<bar> / 2 ^ 53" unfolding f1_def using q1 q2 by (rule rel)
    also have "\<dots> \<le> 2 ^ 41 / 2 ^ 53" using qb q41 by (simp add: divide_right_mono)
    finally have e1: "\<bar>f1 - q\<bar> \<le> 1 / 4096" by simp
    have sy: "s - y = f1 - q" by (simp add: s_def y_def)
    then have e1': "\<bar>s - y\<bar> \<le> 1 / 4096" using e1 by simp
    have y40': "\<bar>y\<bar> \<le> 1099511627776" using y40 by simp
    have sb': "\<bar>s\<bar> \<le> 1099511627777" using e1' y40' by linarith
    then have sb: "\<bar>s\<bar> \<le> 2 ^ 40 + 1" by simp
    have y100: "1 / 100 \<le> \<bar>y\<bar>"
    proof (cases "0 \<le> k div 100")
      case True
      then have "(0::real) \<le> of_int (k div 100)" by (simp only: of_int_0_le_iff)
      with h(1) show ?thesis by linarith
    next
      case False
      then have "k div 100 + 1 \<le> 0" by simp
      then have "(of_int (k div 100 + 1) :: real) \<le> 0" by (simp only: of_int_le_0_iff)
      then have "(of_int (k div 100) :: real) \<le> - 1" by simp
      with h(2) show ?thesis by linarith
    qed
    have s1: "1 / 1024 \<le> \<bar>s\<bar>" using y100 e1' by linarith
    have s2: "\<bar>s\<bar> \<le> 2 ^ 42" using sb' by simp
    have "\<bar>f2 - s\<bar> \<le> \<bar>s\<bar> / 2 ^ 53" unfolding f2_def using s1 s2 by (rule rel)
    also have "\<dots> \<le> (2 ^ 40 + 1) / 2 ^ 53" using sb by (simp add: divide_right_mono)
    finally have e2: "\<bar>f2 - s\<bar> \<le> 1 / 4096" by simp
    have err: "\<bar>f2 - y\<bar> < 1 / 100" using e1' e2 by linarith
    have "of_int (k div 100) < y" and "y < of_int (k div 100) + 1" using h by simp_all
    then have py: "py_int y = (if 0 \<le> k div 100 then k div 100 else k div 100 + 1)"
      by (rule py_int_between)
    have "of_int (k div 100) < f2" and "f2 < of_int (k div 100) + 1" using h err by linarith+
    then have "py_int f2 = (if 0 \<le> k div 100 then k div 100 else k div 100 + 1)"
      by (rule py_int_between)
    with py have "py_int f2 = py_int y" by simp
    then show ?thesis
      unfolding goal by (simp add: f2_def s_def f1_def q_def n_def fm)
  qed
qed

lemma get_priority_range_doubles:
  fixes fl :: "real \<Rightarrow> real"
  assumes "\<And>x. 1 / 1024 \<le> \<bar>x\<bar> \<Longrightarrow> \<bar>x\<bar> \<le> 2 ^ 42 \<Longrightarrow> \<bar>fl x - x\<bar> \<le> \<bar>x\<bar> / 2 ^ 53"
    and "\<And>k :: int. \<bar>k\<bar> \<le> 2 ^ 53 \<Longrightarrow> fl (of_int k) = of_int k"
    and "0 \<le> p" and "p \<le> 100"
    and "mn \<le> mx" and "- (2 ^ 40) \<le> mn" and "mx \<le> 2 ^ 40"
    and "get_default (params plan_cfg) ''priority'' 20 = p"
    and "priority config = None"
    and "priority_min config = Some mn" and "priority_max config = Some mx"
  shows "py_int (fl (fl (of_int (p * (mx - mn)) / 100) + fl (of_int mn)))
         = get_priority config plan_cfg"
proof -
  have "get_priority config plan_cfg = py_int (true_div (p * (mx - mn)) 100 + of_int mn)"
    using assms(8-11) by (simp add: get_priority_def is_set_def)
  with rounded_range_value [of fl p mn mx, OF assms(1-7)] show ?thesis by simp
qed

text \<open>
  Claim C4 (as amended). For \<open>p\<close> in \<open>[0, 100]\<close>, no flat factor, and a range
  \<open>- 2 ^ 40 \<le> priority_min \<le> priority_max \<le> 2 ^ 40\<close>, the effective priority is
  \<open>p * (priority_max - priority_min) / 100 + priority_min\<close> truncated towards zero, as
  \<^verbatim>\<open>int()\<close> does; it lies in \<open>[priority_min, priority_max]\<close>, and it is the floor of
  that value whenever \<open>priority_min\<close> is not negative. (Beyond that range the doubles
  of the code are too coarse for the statement.)
\<close>

theorem get_priority_range:
  assumes "0 \<le> p" and "p \<le> 100" and "mn \<le> mx"
    and "get_default (params plan_cfg) ''priority'' 20 = p"
    and "priority config = None"
    and "priority_min config = Some mn" and "priority_max config = Some mx"
    and "- (2 ^ 40) \<le> mn" and "mx \<le> 2 ^ 40"
  shows "get_priority config plan_cfg = py_int (of_int (p * (mx - mn)) / 100 + of_int mn)
         \<and> mn \<le> get_priority config plan_cfg \<and> get_priority config plan_cfg \<le> mx
         \<and> (0 \<le> mn \<longrightarrow>
              get_priority config plan_cfg = \<lfloor>of_int (p * (mx - mn)) / 100 + (of_int mn :: real)\<rfloor>)"
proof -
  let ?x = "true_div (p * (mx - mn)) 100 + (of_int mn :: real)"
  have eq: "get_priority config plan_cfg = py_int ?x"
    using assms by (simp add: get_priority_def is_set_def)
  have d: "0 \<le> mx - mn" using assms(3) by simp
  have b: "0 \<le> true_div (p * (mx - mn)) 100 \<and> true_div (p * (mx - mn)) 100 \<le> of_int (mx - mn)"
    using scaled_between [OF assms(1) assms(2) d] .
  have lo: "of_int mn \<le> ?x" using b by simp
  have up: "?x \<le> of_int mx" using b by simp
  have rng: "mn \<le> py_int ?x \<and> py_int ?x \<le> mx" using py_int_bounds [OF lo up] .
  have fl: "0 \<le> mn \<longrightarrow> py_int ?x = \<lfloor>?x\<rfloor>"
  proof
    assume "0 \<le> mn"
    then have "(0::real) \<le> of_int mn" by simp
    with b have "0 \<le> ?x" by simp
    then show "py_int ?x = \<lfloor>?x\<rfloor>" by (rule py_int_nonneg)
  qed
  show ?thesis using eq rng fl by (simp add: true_div_def)
qed

theorem get_priority_range_witness:
  "get_priority \<lparr>priority = None, priority_min = Some 10, priority_max = Some 50\<rparr>
     \<lparr>params = [''priority'' \<mapsto> 20]\<rparr> = 18"
  using get_priority_range [of 20 10 50 "\<lparr>params = [''priority'' \<mapsto> 20]\<rparr>"
      "\<lparr>priority = None, priority_min = Some 10, priority_max = Some 50\<rparr>"]
  by (simp add: get_default_def py_int_def)

text \<open>
  Claim C4 as stated promises the floor for every range. With a negative range the value
  \<open>50 * 5 / 100 - 10 = - 7.5\<close> is truncated to \<open>- 7\<close>, while its floor is \<open>- 8\<close>.
\<close>

theorem get_priority_range_negative_counterexample:
  "get_priority \<lparr>priority = None, priority_min = Some (- 10), priority_max = Some (- 5)\<rparr>
     \<lparr>params = [''priority'' \<mapsto> 50]\<rparr> = - 7
   \<and> \<lfloor>of_int (50 * (- 5 - (- 10))) / 100 + (of_int (- 10) :: real)\<rfloor> = - 8"
  by (simp add: get_priority_def is_set_def get_default_def py_int_def true_div_def
      floor_divide_eq_div_numeral floor_minus_divide_eq_div_numeral)

text \<open>
  Claim C6 (as amended). A plan without a priority behaves as one with priority \<open>20\<close>;
  a flat factor other than \<open>0\<close> is applied whatever the range says; and when the flat
  factor is absent or \<open>0\<close> and one end of the range is missing, the nominal priority
  is returned unchanged.
\<close>

theorem get_priority_mode_selection:
  "(params plan_cfg ''priority'' = None \<longrightarrow>
      get_priority config plan_cfg =
      get_priority config (plan_cfg\<lparr>params := (params plan_cfg)(''priority'' \<mapsto> 20)\<rparr>))
   \<and> (priority config = Some s \<and> s \<noteq> 0 \<longrightarrow>
      get_priority config plan_cfg =
      py_int (true_div (get_default (params plan_cfg) ''priority'' 20 * s) 100))
   \<and> ((priority config = None \<or> priority config = Some 0)
        \<and> (priority_min config = None \<or> priority_max config = None) \<longrightarrow>
      get_priority config plan_cfg = get_default (params plan_cfg) ''priority'' 20)"
  by (auto simp add: get_priority_def is_set_def get_default_def)

theorem get_priority_mode_selection_witness:
  "get_priority \<lparr>priority = Some 50, priority_min = Some 10, priority_max = Some 50\<rparr>
     \<lparr>params = Map.empty\<rparr> = 10
   \<and> get_priority \<lparr>priority = None, priority_min = None, priority_max = Some 50\<rparr>
     \<lparr>params = [''priority'' \<mapsto> 35]\<rparr> = 35
   \<and> get_priority \<lparr>priority = None, priority_min = None, priority_max = None\<rparr>
     \<lparr>params = Map.empty\<rparr> = 20"
  using get_priority_mode_selection
      [of "\<lparr>params = Map.empty\<rparr>"
          "\<lparr>priority = Some 50, priority_min = Some 10, priority_max = Some 50\<rparr>" 50]
    get_priority_mode_selection
      [of "\<lparr>params = [''priority'' \<mapsto> 35]\<rparr>"
          "\<lparr>priority = None, priority_min = None, priority_max = Some 50\<rparr>" 0]
    get_priority_mode_selection
      [of "\<lparr>params = Map.empty\<rparr>"
          "\<lparr>priority = None, priority_min = None, priority_max = None\<rparr>" 0]
  by (simp add: get_default_def true_div_def py_int_def)

text \<open>
  Claim C6 as stated gives the flat factor precedence whenever both modes are configured.
  With the flat factor \<open>0\<close> and the range \<open>(10, 50)\<close> the range mode is applied:
  the result is \<open>18\<close>, not the flat \<open>0\<close>.
\<close>

theorem get_priority_precedence_zero_counterexample:
  "get_priority \<lparr>priority = Some 0, priority_min = Some 10, priority_max = Some 50\<rparr>
     \<lparr>params = [''priority'' \<mapsto> 20]\<rparr> = 18
   \<and> py_int (true_div (20 * 0) 100) = 0"
  by (simp add: get_priority_def is_set_def get_default_def true_div_def py_int_def)

text \<open>
  Claim C9. With the flat factor set to \<open>0\<close>, \<^verbatim>\<open>_get_priority\<close> behaves as if no flat
  factor were configured: the range mode applies when both of its ends are set, and
  otherwise the nominal priority is returned unchanged.
\<close>

theorem get_priority_zero_scale:
  assumes "priority config = Some 0"
  shows "get_priority config plan_cfg = get_priority (config\<lparr>priority := None\<rparr>) plan_cfg
         \<and> get_priority config plan_cfg =
           (case (priority_max config, priority_min config) of
              (Some mx, Some mn) \<Rightarrow>
                py_int (true_div (get_default (params plan_cfg) ''priority'' 20 * (mx - mn)) 100
                        + of_int mn)
            | _ \<Rightarrow> get_default (params plan_cfg) ''priority'' 20)"
  using assms by (auto simp add: get_priority_def is_set_def split: option.splits)

theorem get_priority_zero_scale_witness:
  "get_priority \<lparr>priority = Some 0, priority_min = None, priority_max = None\<rparr>
     \<lparr>params = [''priority'' \<mapsto> 40]\<rparr> = 40
   \<and> get_priority \<lparr>priority = Some 0, priority_min = Some 0, priority_max = Some 10\<rparr>
     \<lparr>params = [''priority'' \<mapsto> 40]\<rparr> = 4"
  using get_priority_zero_scale
      [of "\<lparr>priority = Some 0, priority_min = None, priority_max = None\<rparr>"
          "\<lparr>params = [''priority'' \<mapsto> 40]\<rparr>"]
    get_priority_zero_scale
      [of "\<lparr>priority = Some 0, priority_min = Some 0, priority_max = Some 10\<rparr>"
          "\<lparr>params = [''priority'' \<mapsto> 40]\<rparr>"]
  by (simp add: get_default_def true_div_def py_int_def)

section \<open>The matcher and the shape of a matching string\<close>

text \<open>
  Every result of \<open>rmatch\<close> splits the input into a word of the pattern and the rest,
  and every such split is among the results. So \<^verbatim>\<open>match\<close> succeeds exactly on the
  strings that start with a word of the pattern.
\<close>

lemma take_run: "k \<le> length (takeWhile P s) \<Longrightarrow> list_all P (take k s)"
proof (induction s arbitrary: k)
  case Nil
  then show ?case by simp
next
  case (Cons a s)
  show ?case
  proof (cases k)
    case 0
    then show ?thesis by simp
  next
    case (Suc j)
    with Cons.prems have "P a" and "j \<le> length (takeWhile P s)"
      by (auto split: if_splits)
    with Cons.IH [of j] Suc show ?thesis by simp
  qed
qed

lemma run_length: "list_all P w \<Longrightarrow> length w \<le> length (takeWhile P (w @ t))"
  by (simp add: list_all_iff takeWhile_append2)

lemma rmatch_sound:
  "(s', g') \<in> set (rmatch r s g) \<Longrightarrow> \<exists>w. s = w @ s' \<and> w \<in> words r"
proof (induction r arbitrary: s g s' g')
  case (Lit l)
  then show ?case by (auto simp add: prefix_def split: if_splits)
next
  case Dot
  then show ?case by (auto split: list.splits if_splits)
next
  case (Plus cls)
  then obtain k where k: "1 \<le> k" "k \<le> length (takeWhile cls s)" "s' = drop k s"
    by auto
  have "k \<le> length s" using k(2) length_takeWhile_le [of cls s] by simp
  then have "take k s \<noteq> []" using k(1) by auto
  moreover have "list_all cls (take k s)" using k(2) by (rule take_run)
  moreover have "s = take k s @ s'" using k(3) by simp
  ultimately show ?case by auto
next
  case (Cat r1 r2)
  then obtain s1 g1 where m1: "(s1, g1) \<in> set (rmatch r1 s g)"
    and m2: "(s', g') \<in> set (rmatch r2 s1 g1)" by auto
  from Cat.IH(1) [OF m1] obtain u where u: "s = u @ s1" "u \<in> words r1" by auto
  from Cat.IH(2) [OF m2] obtain v where v: "s1 = v @ s'" "v \<in> words r2" by auto
  have "s = (u @ v) @ s'" using u v by simp
  moreover have "u @ v \<in> words (Cat r1 r2)" using u v by auto
  ultimately show ?case by blast
next
  case (Opt r)
  from Opt.prems have "(s', g') \<in> set (rmatch r s g) \<or> s' = s" by auto
  then show ?case
  proof
    assume "(s', g') \<in> set (rmatch r s g)"
    from Opt.IH [OF this] show ?thesis by auto
  next
    assume "s' = s"
    then show ?thesis by simp
  qed
next
  case (Grp i r)
  then obtain g1 where "(s', g1) \<in> set (rmatch r s g)" by auto
  from Grp.IH [OF this] show ?case by simp
qed

lemma rmatch_complete:
  "w \<in> words r \<Longrightarrow> \<exists>g'. (s', g') \<in> set (rmatch r (w @ s') g)"
proof (induction r arbitrary: w s' g)
  case (Lit l)
  then show ?case by simp
next
  case Dot
  then obtain c where "w = [c]" and "c \<noteq> CHR 0x0A" by auto
  then show ?case by simp
next
  case (Plus cls)
  then have w: "w \<noteq> []" "list_all cls w" by auto
  have "length w \<le> length (takeWhile cls (w @ s'))" using w(2) by (rule run_length)
  moreover have "1 \<le> length w" using w(1) by (cases w) auto
  ultimately have "length w \<in> set (rev [1 ..< Suc (length (takeWhile cls (w @ s')))])" by auto
  then have "(drop (length w) (w @ s'), g) \<in> set (rmatch (Plus cls) (w @ s') g)"
    by (simp only: rmatch.simps set_map) (rule imageI)
  then show ?case by auto
next
  case (Cat r1 r2)
  then obtain u v where uv: "w = u @ v" "u \<in> words r1" "v \<in> words r2" by auto
  from Cat.IH(1) [OF uv(2), of "v @ s'" g] obtain g1
    where m1: "(v @ s', g1) \<in> set (rmatch r1 (u @ v @ s') g)" by auto
  from Cat.IH(2) [OF uv(3), of s' g1] obtain g2
    where m2: "(s', g2) \<in> set (rmatch r2 (v @ s') g1)" by auto
  have "(s', g2) \<in> set (rmatch (Cat r1 r2) (w @ s') g)" using m1 m2 uv(1) by force
  then show ?case by blast
next
  case (Opt r)
  then show ?case by (cases "w = []") auto
next
  case (Grp i r)
  then obtain g1 where "(s', g1) \<in> set (rmatch r (w @ s') g)" by fastforce
  then show ?case by force
qed

lemma re_match_iff: "re_match r s \<noteq> None \<longleftrightarrow> (\<exists>w t. s = w @ t \<and> w \<in> words r)"
proof
  assume "re_match r s \<noteq> None"
  then obtain s' g' where "(s', g') \<in> set (rmatch r s (\<lambda>_. None))"
    by (auto simp add: re_match_def split: list.splits)
  then show "\<exists>w t. s = w @ t \<and> w \<in> words r" using rmatch_sound by blast
next
  assume "\<exists>w t. s = w @ t \<and> w \<in> words r"
  then obtain w t where wt: "s = w @ t" "w \<in> words r" by auto
  from rmatch_complete [OF wt(2), of t "\<lambda>_. None"] wt(1)
  have "rmatch r s (\<lambda>_. None) \<noteq> []" by auto
  then show "re_match r s \<noteq> None" by (auto simp add: re_match_def split: list.splits)
qed


lemma words_Lit_Cat: "w \<in> words (Cat (Lit l) r) \<longleftrightarrow> (\<exists>v. w = l @ v \<and> v \<in> words r)"
  by auto

lemma words_Dot_Cat:
  "w \<in> words (Cat Dot r) \<longleftrightarrow> (\<exists>c v. w = c # v \<and> c \<noteq> CHR 0x0A \<and> v \<in> words r)"
proof
  assume "w \<in> words (Cat Dot r)"
  then show "\<exists>c v. w = c # v \<and> c \<noteq> CHR 0x0A \<and> v \<in> words r" by auto
next
  assume "\<exists>c v. w = c # v \<and> c \<noteq> CHR 0x0A \<and> v \<in> words r"
  then obtain c v where cv: "w = [c] @ v" "c \<noteq> CHR 0x0A" "v \<in> words r" by auto
  from cv(2) have "[c] \<in> words Dot" by simp
  with cv(1) cv(3) show "w \<in> words (Cat Dot r)" unfolding words.simps(4) by blast
qed

lemma words_Plus_Cat:
  "w \<in> words (Cat (Grp i (Plus cls)) r) \<longleftrightarrow>
   (\<exists>u v. w = u @ v \<and> u \<noteq> [] \<and> list_all cls u \<and> v \<in> words r)"
  by auto

lemma words_Opt_frag:
  "w \<in> words (Opt (Grp i (Cat (Lit l) (Plus cls)))) \<longleftrightarrow>
   (w = [] \<or> (\<exists>u. w = l @ u \<and> u \<noteq> [] \<and> list_all cls u))"
  by auto

lemma words_shape:
  "w \<in> words (seq [Lit a, Grp i (Plus K), Lit b, Grp j (Plus A), Lit c, Grp k (Plus F),
                     Dot, Lit d, Dot, Lit e, Opt (Grp l (Cat (Lit p) (Plus G)))]) \<longleftrightarrow>
   (\<exists>kver arch flav c1 c2 opt.
      w = a @ kver @ b @ arch @ c @ flav @ c1 # d @ c2 # e @ opt
      \<and> kver \<noteq> [] \<and> list_all K kver
      \<and> arch \<noteq> [] \<and> list_all A arch
      \<and> flav \<noteq> [] \<and> list_all F flav
      \<and> c1 \<noteq> CHR 0x0A \<and> c2 \<noteq> CHR 0x0A
      \<and> (opt = [] \<or> (\<exists>frag. opt = p @ frag \<and> frag \<noteq> [] \<and> list_all G frag)))"
  unfolding seq.simps
  apply (simp only: words_Lit_Cat words_Dot_Cat words_Plus_Cat words_Opt_frag)
  apply (rule iffI)
   apply (elim exE conjE, hypsubst, intro exI conjI, (assumption | rule refl)+)
  apply (elim exE conjE, hypsubst, intro exI conjI, (assumption | rule refl)+)
  done

lemma words_CROS_CONFIG_RE:
  "w \<in> words CROS_CONFIG_RE \<longleftrightarrow>
   (\<exists>kver arch flav c1 c2 opt.
      w = ''cros://chromeos-'' @ kver @ ''/'' @ arch @ ''/'' @ flav
          @ c1 # ''flavour'' @ c2 # ''config'' @ opt
      \<and> kver \<noteq> [] \<and> list_all cls_kver kver
      \<and> arch \<noteq> [] \<and> list_all cls_arch arch
      \<and> flav \<noteq> [] \<and> list_all cls_flav flav
      \<and> c1 \<noteq> CHR 0x0A \<and> c2 \<noteq> CHR 0x0A
      \<and> (opt = [] \<or> (\<exists>frag. opt = ''+'' @ frag \<and> frag \<noteq> [] \<and> list_all cls_frag frag)))"
  unfolding CROS_CONFIG_RE_def by (rule words_shape)


lemma cros_config_shape:
  "re_match CROS_CONFIG_RE d \<noteq> None \<longleftrightarrow>
   (\<exists>kver arch flav c1 c2 rest.
      d = ''cros://chromeos-'' @ kver @ ''/'' @ arch @ ''/'' @ flav
          @ c1 # ''flavour'' @ c2 # ''config'' @ rest
      \<and> kver \<noteq> [] \<and> list_all cls_kver kver
      \<and> arch \<noteq> [] \<and> list_all cls_arch arch
      \<and> flav \<noteq> [] \<and> list_all cls_flav flav
      \<and> c1 \<noteq> CHR 0x0A \<and> c2 \<noteq> CHR 0x0A)"
  (is "?lhs \<longleftrightarrow> ?rhs")
proof
  assume ?lhs
  then obtain w t where wt: "d = w @ t" "w \<in> words CROS_CONFIG_RE"
    unfolding re_match_iff by blast
  from wt(2) obtain kver arch flav c1 c2 opt where
    w: "w = ''cros://chromeos-'' @ kver @ ''/'' @ arch @ ''/'' @ flav
          @ c1 # ''flavour'' @ c2 # ''config'' @ opt"
    and p: "kver \<noteq> []" "list_all cls_kver kver" "arch \<noteq> []" "list_all cls_arch arch"
      "flav \<noteq> []" "list_all cls_flav flav" "c1 \<noteq> CHR 0x0A" "c2 \<noteq> CHR 0x0A"
    unfolding words_CROS_CONFIG_RE by blast
  have "d = ''cros://chromeos-'' @ kver @ ''/'' @ arch @ ''/'' @ flav
          @ c1 # ''flavour'' @ c2 # ''config'' @ (opt @ t)"
    unfolding wt(1) w by simp
  with p show ?rhs by blast
next
  assume ?rhs
  then obtain kver arch flav c1 c2 rest where
    d: "d = (''cros://chromeos-'' @ kver @ ''/'' @ arch @ ''/'' @ flav
          @ c1 # ''flavour'' @ c2 # ''config'' @ []) @ rest"
    and p: "kver \<noteq> []" "list_all cls_kver kver" "arch \<noteq> []" "list_all cls_arch arch"
      "flav \<noteq> []" "list_all cls_flav flav" "c1 \<noteq> CHR 0x0A" "c2 \<noteq> CHR 0x0A"
    by auto
  have "''cros://chromeos-'' @ kver @ ''/'' @ arch @ ''/'' @ flav
          @ c1 # ''flavour'' @ c2 # ''config'' @ [] \<in> words CROS_CONFIG_RE"
    unfolding words_CROS_CONFIG_RE using p by blast
  with d show ?lhs unfolding re_match_iff by blast
qed

section \<open>Shortened names: properties\<close>

text \<open>Unfolding sets for evaluating the functions on concrete strings.\<close>

lemmas cros_eval =
  shorten_cros_defconfig_def re_match_def CROS_CONFIG_RE_def cls_kver_def cls_arch_def
  cls_flav_def cls_frag_def in_range_def less_eq_char_def join_vals_def opt_val_def
  or_else_def CROS_FLAVOURS_def replace_char_def strip_char_def

lemmas name_eval =
  shorten_cros_name_def shorten_cros_device_type_def CROS_DEVICE_TYPES_def getitem_def
  bind_def startswith_def

text \<open>
  Claim C2 (as amended). The pattern reads the second path segment as the architecture
  and the name before \<^verbatim>\<open>.flavour.config\<close> as the flavour. For
  \<^verbatim>\<open>cros://chromeos-5.15/arm64/chromiumos-arm64.flavour.config+bar\<close> the flavour
  \<^verbatim>\<open>chromiumos-arm64\<close> is looked up as \<^verbatim>\<open>arm64\<close>, the fragment \<^verbatim>\<open>bar\<close> is
  kept, and the result is architecture, short flavour, kernel version and fragment joined
  with \<^verbatim>\<open>-\<close>.
\<close>

theorem shorten_cros_defconfig_example:
  "CROS_FLAVOURS ''chromiumos-arm64'' = Some ''arm64''
   \<and> shorten_cros_defconfig ''cros://chromeos-5.15/arm64/chromiumos-arm64.flavour.config+bar''
       = Inr ''arm64-arm64-5.15-bar''"
  by (simp add: cros_eval)

text \<open>
  Claim C2 as stated uses \<^verbatim>\<open>cros://chromeos-5.15/chromiumos-arm64/foo.flavour.config+bar\<close>.
  Its second path segment contains \<^verbatim>\<open>-\<close>, which the class \<^verbatim>\<open>[a-z0-9_]\<close> does not
  admit: nothing matches and \<^verbatim>\<open>.groups()\<close> raises.
\<close>

theorem shorten_cros_defconfig_spec_example_counterexample:
  "shorten_cros_defconfig ''cros://chromeos-5.15/chromiumos-arm64/foo.flavour.config+bar''
     = Inl AttributeError"
  by (simp add: cros_eval)

text \<open>
  A name is only returned when the shortening of the configuration name returned.
\<close>

lemma bind_Inl: "bind m f = Inr v \<Longrightarrow> \<exists>x. m = Inr x \<and> f x = Inr v"
  by (cases m) (simp_all add: bind_def)

lemma shorten_cros_name_needs_defconfig:
  assumes "ps ''defconfig_full'' = Some (PStr d)" and "startswith d ''cros:''"
    and "shorten_cros_name ps = Inr v"
  shows "\<exists>r. shorten_cros_defconfig d = Inr r"
proof -
  from assms have
    "bind (getitem ps ''tree'') (\<lambda>tree.
     bind (getitem ps ''git_branch'') (\<lambda>git_branch.
     bind (getitem ps ''git_describe'') (\<lambda>git_describe.
     bind (getitem ps ''arch'') (\<lambda>arch.
     bind (shorten_cros_defconfig d) (\<lambda>defconfig.
     bind (getitem ps ''build_environment'') (\<lambda>build_environment.
     bind (getitem ps ''device_type'') (\<lambda>device_type.
     bind (getitem ps ''plan'') (\<lambda>plan.
     bind (join_vals ''-''
             [tree, git_branch, git_describe, arch, PStr defconfig,
              build_environment, shorten_cros_device_type device_type, plan])
       (\<lambda>joined. Inr (PStr (replace_char CHR ''/'' CHR ''-'' joined))))))))))) = Inr v"
    by (simp add: shorten_cros_name_def getitem_def bind_def)
  then show ?thesis by (auto dest!: bind_Inl)
qed

text \<open>
  Claim C3 (as amended). When \<^verbatim>\<open>defconfig_full\<close> starts with \<^verbatim>\<open>cros:\<close> and does not
  begin with \<^verbatim>\<open>cros://chromeos-\<close>, a run of \<^verbatim>\<open>[0-9.]\<close>, \<^verbatim>\<open>/\<close>, a run of
  \<^verbatim>\<open>[a-z0-9_]\<close>, \<^verbatim>\<open>/\<close>, a run of \<^verbatim>\<open>[a-z0-9-._]\<close>, any character,
  \<^verbatim>\<open>flavour\<close>, any character, \<^verbatim>\<open>config\<close> (the runs not empty, the two characters
  no newlines), then \<^verbatim>\<open>_shorten_cros_defconfig\<close> raises \<^verbatim>\<open>AttributeError\<close> and
  \<^verbatim>\<open>_shorten_cros_name\<close> raises as well: no name is returned.
\<close>

theorem shorten_cros_malformed:
  assumes "startswith d ''cros:''"
    and "\<not> (\<exists>kver arch flav c1 c2 rest.
            d = ''cros://chromeos-'' @ kver @ ''/'' @ arch @ ''/'' @ flav
                @ c1 # ''flavour'' @ c2 # ''config'' @ rest
            \<and> kver \<noteq> [] \<and> list_all cls_kver kver
            \<and> arch \<noteq> [] \<and> list_all cls_arch arch
            \<and> flav \<noteq> [] \<and> list_all cls_flav flav
            \<and> c1 \<noteq> CHR 0x0A \<and> c2 \<noteq> CHR 0x0A)"
  shows "shorten_cros_defconfig d = Inl AttributeError
         \<and> (ps ''defconfig_full'' = Some (PStr d) \<longrightarrow> (\<exists>e. shorten_cros_name ps = Inl e))"
proof -
  from assms(2) have "re_match CROS_CONFIG_RE d = None"
    using cros_config_shape [of d] by blast
  then have err: "shorten_cros_defconfig d = Inl AttributeError"
    by (simp add: shorten_cros_defconfig_def)
  have "\<exists>e. shorten_cros_name ps = Inl e" if full: "ps ''defconfig_full'' = Some (PStr d)"
  proof (cases "shorten_cros_name ps")
    case (Inl e)
    then show ?thesis by blast
  next
    case (Inr v)
    from shorten_cros_name_needs_defconfig [OF full assms(1) Inr] err show ?thesis by simp
  qed
  with err show ?thesis by blast
qed

theorem shorten_cros_malformed_witness:
  "shorten_cros_defconfig ''cros://chromeos-5.10/x86_64/chromeos-intel-pineview.config''
     = Inl AttributeError
   \<and> shorten_cros_name
        [''defconfig_full'' \<mapsto> PStr ''cros://chromeos-5.10/x86_64/chromeos-intel-pineview.config'',
         ''tree'' \<mapsto> PStr ''chromeos'', ''git_branch'' \<mapsto> PStr ''main'',
         ''git_describe'' \<mapsto> PStr ''v5.10'', ''arch'' \<mapsto> PStr ''x86_64'',
         ''build_environment'' \<mapsto> PStr ''clang-14'',
         ''device_type'' \<mapsto> PStr ''qemu_x86_64-uefi-chromeos'',
         ''plan'' \<mapsto> PStr ''baseline'', ''name'' \<mapsto> PStr ''job'']
       = Inl AttributeError"
proof -
  let ?d = "''cros://chromeos-5.10/x86_64/chromeos-intel-pineview.config''"
  let ?ps = "[''defconfig_full'' \<mapsto> PStr ?d,
         ''tree'' \<mapsto> PStr ''chromeos'', ''git_branch'' \<mapsto> PStr ''main'',
         ''git_describe'' \<mapsto> PStr ''v5.10'', ''arch'' \<mapsto> PStr ''x86_64'',
         ''build_environment'' \<mapsto> PStr ''clang-14'',
         ''device_type'' \<mapsto> PStr ''qemu_x86_64-uefi-chromeos'',
         ''plan'' \<mapsto> PStr ''baseline'', ''name'' \<mapsto> PStr ''job'']"
  have pre: "startswith ?d ''cros:''" by (simp add: startswith_def)
  have "re_match CROS_CONFIG_RE ?d = None" by (simp add: cros_eval)
  then have shape: "\<not> (\<exists>kver arch flav c1 c2 rest.
            ?d = ''cros://chromeos-'' @ kver @ ''/'' @ arch @ ''/'' @ flav
                @ c1 # ''flavour'' @ c2 # ''config'' @ rest
            \<and> kver \<noteq> [] \<and> list_all cls_kver kver
            \<and> arch \<noteq> [] \<and> list_all cls_arch arch
            \<and> flav \<noteq> [] \<and> list_all cls_flav flav
            \<and> c1 \<noteq> CHR 0x0A \<and> c2 \<noteq> CHR 0x0A)"
    using cros_config_shape [of ?d] by blast
  have d: "shorten_cros_defconfig ?d = Inl AttributeError"
    using shorten_cros_malformed [OF pre shape, of ?ps] by blast
  have "shorten_cros_name ?ps = Inl AttributeError"
    by (simp add: name_eval d)
  with d show ?thesis by blast
qed

text \<open>
  Claim C3 as stated counts every string without the suffix \<^verbatim>\<open>.flavour.config\<close> as
  malformed. The string below has \<^verbatim>\<open>-\<close> where the pattern has its two dots; it is
  matched, and a job name is returned.
\<close>

theorem shorten_cros_name_missing_suffix_counterexample:
  "startswith ''cros://chromeos-5.10/x86_64/chromeos-intel-pineview-flavour-config'' ''cros:''
   \<and> \<not> suffix ''.flavour.config''
         ''cros://chromeos-5.10/x86_64/chromeos-intel-pineview-flavour-config''
   \<and> shorten_cros_name
        [''defconfig_full'' \<mapsto>
           PStr ''cros://chromeos-5.10/x86_64/chromeos-intel-pineview-flavour-config'',
         ''tree'' \<mapsto> PStr ''chromeos'', ''git_branch'' \<mapsto> PStr ''main'',
         ''git_describe'' \<mapsto> PStr ''v5.10'', ''arch'' \<mapsto> PStr ''x86_64'',
         ''build_environment'' \<mapsto> PStr ''clang-14'',
         ''device_type'' \<mapsto> PStr ''qemu_x86_64-uefi-chromeos'',
         ''plan'' \<mapsto> PStr ''baseline'', ''name'' \<mapsto> PStr ''job'']
       = Inr (PStr ''chromeos-main-v5.10-x86_64-x86_64-pine-5.10--clang-14-qemu-x86-baseline'')"
  by (simp add: cros_eval name_eval suffix_to_prefix)

text \<open>The table of device types has three keys, and none of its values is empty.\<close>

lemma device_types_dom:
  "dom CROS_DEVICE_TYPES =
     {''hp-x360-12b-ca0500na-n4000-octopus_chromeos'',
      ''hp-x360-12b-ca0010nr-n4020-octopus_chromeos'',
      ''qemu_x86_64-uefi-chromeos''}"
  unfolding CROS_DEVICE_TYPES_def by (simp only: dom_map_of_conv_image_fst) simp

lemma device_types_card: "card (dom CROS_DEVICE_TYPES) = 3"
  unfolding device_types_dom by simp

lemma device_type_lookup:
  "or_else (CROS_DEVICE_TYPES d) d = (case CROS_DEVICE_TYPES d of None \<Rightarrow> d | Some short \<Rightarrow> short)"
  by (simp add: or_else_def CROS_DEVICE_TYPES_def)

text \<open>
  Claim C5. When \<^verbatim>\<open>defconfig_full\<close> starts with \<^verbatim>\<open>cros:\<close>, the job name is
  \<^verbatim>\<open>tree\<close>, \<^verbatim>\<open>git_branch\<close>, \<^verbatim>\<open>git_describe\<close>, \<^verbatim>\<open>arch\<close>, the shortened
  configuration name, \<^verbatim>\<open>build_environment\<close>, the shortened device type and
  \<^verbatim>\<open>plan\<close> joined with \<^verbatim>\<open>-\<close>, every \<^verbatim>\<open>/\<close> then replaced by \<^verbatim>\<open>-\<close>; the
  shortened device type is the table's value for a key of the three-entry table and the
  device type itself otherwise. When \<^verbatim>\<open>defconfig_full\<close> does not start with
  \<^verbatim>\<open>cros:\<close>, the job name is \<^verbatim>\<open>params['name']\<close> unchanged.
\<close>

theorem shorten_cros_name_join:
  "(ps ''defconfig_full'' = Some (PStr d) \<and> startswith d ''cros:''
      \<and> ps ''tree'' = Some (PStr tree) \<and> ps ''git_branch'' = Some (PStr git_branch)
      \<and> ps ''git_describe'' = Some (PStr git_describe) \<and> ps ''arch'' = Some (PStr arch)
      \<and> shorten_cros_defconfig d = Inr defconfig
      \<and> ps ''build_environment'' = Some (PStr build_environment)
      \<and> ps ''device_type'' = Some (PStr device_type) \<and> ps ''plan'' = Some (PStr plan) \<longrightarrow>
    shorten_cros_name ps =
      Inr (PStr (replace_char CHR ''/'' CHR ''-''
        (str_join ''-''
           [tree, git_branch, git_describe, arch, defconfig, build_environment,
            (case CROS_DEVICE_TYPES device_type of None \<Rightarrow> device_type | Some short \<Rightarrow> short),
            plan]))))
   \<and> (ps ''defconfig_full'' = Some (PStr d) \<and> \<not> startswith d ''cros:'' \<and> ps ''name'' = Some v \<longrightarrow>
    shorten_cros_name ps = Inr v)
   \<and> card (dom CROS_DEVICE_TYPES) = 3"
  by (simp add: shorten_cros_name_def getitem_def bind_def join_vals_def
      shorten_cros_device_type_def device_type_lookup device_types_card)

theorem shorten_cros_name_join_witness:
  "shorten_cros_name
     [''defconfig_full'' \<mapsto>
        PStr ''cros://chromeos-5.10/x86_64/chromeos-intel-pineview.flavour.config+x86-chromebook'',
      ''tree'' \<mapsto> PStr ''chromeos'', ''git_branch'' \<mapsto> PStr ''for/next'',
      ''git_describe'' \<mapsto> PStr ''v5.10-rc1'', ''arch'' \<mapsto> PStr ''x86_64'',
      ''build_environment'' \<mapsto> PStr ''clang-14'',
      ''device_type'' \<mapsto> PStr ''qemu_x86_64-uefi-chromeos'',
      ''plan'' \<mapsto> PStr ''baseline'', ''name'' \<mapsto> PStr ''job'']
     = Inr (PStr ''chromeos-for-next-v5.10-rc1-x86_64-x86_64-pine-5.10-x86-chromebook-clang-14-qemu-x86-baseline'')
   \<and> shorten_cros_name
     [''defconfig_full'' \<mapsto> PStr ''defconfig+kselftest'', ''name'' \<mapsto> PStr ''baseline/qemu'']
     = Inr (PStr ''baseline/qemu'')"
proof -
  let ?d = "''cros://chromeos-5.10/x86_64/chromeos-intel-pineview.flavour.config+x86-chromebook''"
  have sd: "shorten_cros_defconfig ?d = Inr ''x86_64-pine-5.10-x86-chromebook''"
    by (simp add: cros_eval)
  have dt: "CROS_DEVICE_TYPES ''qemu_x86_64-uefi-chromeos'' = Some ''qemu-x86''"
    by (simp add: CROS_DEVICE_TYPES_def)
  show ?thesis
    using shorten_cros_name_join
      [of "[''defconfig_full'' \<mapsto> PStr ?d,
            ''tree'' \<mapsto> PStr ''chromeos'', ''git_branch'' \<mapsto> PStr ''for/next'',
            ''git_describe'' \<mapsto> PStr ''v5.10-rc1'', ''arch'' \<mapsto> PStr ''x86_64'',
            ''build_environment'' \<mapsto> PStr ''clang-14'',
            ''device_type'' \<mapsto> PStr ''qemu_x86_64-uefi-chromeos'',
            ''plan'' \<mapsto> PStr ''baseline'', ''name'' \<mapsto> PStr ''job'']"
          ?d "''chromeos''" "''for/next''" "''v5.10-rc1''" "''x86_64''"
          "''x86_64-pine-5.10-x86-chromebook''" "''clang-14''" "''qemu_x86_64-uefi-chromeos''"
          "''baseline''" "PStr ''job''"]
      shorten_cros_name_join
      [of "[''defconfig_full'' \<mapsto> PStr ''defconfig+kselftest'', ''name'' \<mapsto> PStr ''baseline/qemu'']"
          "''defconfig+kselftest''" "[]" "[]" "[]" "[]" "[]" "[]" "[]" "[]" "PStr ''baseline/qemu''"]
    by (simp add: sd dt startswith_def replace_char_def)
qed

text \<open>
  Claim C10. The pattern is laxer than the suffix \<^verbatim>\<open>.flavour.config\<close>: a string with
  other characters in place of the two dots, and a string with more text after the
  suffix, both start with \<^verbatim>\<open>cros:\<close>, do not end in \<^verbatim>\<open>.flavour.config\<close>, and are
  shortened without an error.
\<close>

theorem cros_config_re_lax:
  "startswith ''cros://chromeos-5.15/arm64/foo_flavour,config'' ''cros:''
   \<and> \<not> suffix ''.flavour.config'' ''cros://chromeos-5.15/arm64/foo_flavour,config''
   \<and> shorten_cros_defconfig ''cros://chromeos-5.15/arm64/foo_flavour,config''
       = Inr ''arm64-foo-5.15-''
   \<and> startswith ''cros://chromeos-5.15/arm64/foo.flavour.config.old'' ''cros:''
   \<and> \<not> suffix ''.flavour.config'' ''cros://chromeos-5.15/arm64/foo.flavour.config.old''
   \<and> shorten_cros_defconfig ''cros://chromeos-5.15/arm64/foo.flavour.config.old''
       = Inr ''arm64-foo-5.15-''"
  by (simp add: cros_eval startswith_def suffix_to_prefix)

section \<open>Callback parameters: properties\<close>

text \<open>
  Claim C7. With a non-empty \<^verbatim>\<open>id\<close> in the options, \<^verbatim>\<open>params\<close> gains
  \<^verbatim>\<open>callback\<close>, \<^verbatim>\<open>callback_url\<close>, \<^verbatim>\<open>callback_dataset\<close> and \<^verbatim>\<open>callback_type\<close>
  from the options; it gains \<^verbatim>\<open>callback_name\<close> exactly when the type is
  \<^verbatim>\<open>kernelci\<close>, as \<^verbatim>\<open>lava/boot\<close> for the plan \<^verbatim>\<open>boot\<close> and \<^verbatim>\<open>lava/test\<close>
  otherwise. With an absent or empty \<^verbatim>\<open>id\<close>, \<^verbatim>\<open>params\<close> is left as it was.
\<close>

theorem add_callback_params_injection:
  "(truthy (dict_get opts ''id'') \<and> dict_get opts ''type'' = PStr ''kernelci''
      \<and> ps ''plan'' = Some plan \<and> opts ''url'' = Some url \<and> opts ''dataset'' = Some dataset \<longrightarrow>
    add_callback_params ps opts =
      (Inr (), ps(''callback_name'' \<mapsto> PStr (if plan = PStr ''boot'' then ''lava/boot'' else ''lava/test''),
                  ''callback'' \<mapsto> dict_get opts ''id'',
                  ''callback_url'' \<mapsto> url,
                  ''callback_dataset'' \<mapsto> dataset,
                  ''callback_type'' \<mapsto> PStr ''kernelci'')))
   \<and> (truthy (dict_get opts ''id'') \<and> dict_get opts ''type'' \<noteq> PStr ''kernelci''
      \<and> opts ''url'' = Some url \<and> opts ''dataset'' = Some dataset \<longrightarrow>
    add_callback_params ps opts =
      (Inr (), ps(''callback'' \<mapsto> dict_get opts ''id'',
                  ''callback_url'' \<mapsto> url,
                  ''callback_dataset'' \<mapsto> dataset,
                  ''callback_type'' \<mapsto> dict_get opts ''type'')))
   \<and> (\<not> truthy (dict_get opts ''id'') \<longrightarrow> add_callback_params ps opts = (Inr (), ps))"
  by (simp add: add_callback_params_def getitem_def Let_def)

theorem add_callback_params_injection_witness:
  "add_callback_params [''plan'' \<mapsto> PStr ''boot'']
     [''id'' \<mapsto> PStr ''kci-token'', ''type'' \<mapsto> PStr ''kernelci'',
      ''url'' \<mapsto> PStr ''https://api.example.org'', ''dataset'' \<mapsto> PStr ''all'']
   = (Inr (), [''plan'' \<mapsto> PStr ''boot'', ''callback_name'' \<mapsto> PStr ''lava/boot'',
               ''callback'' \<mapsto> PStr ''kci-token'',
               ''callback_url'' \<mapsto> PStr ''https://api.example.org'',
               ''callback_dataset'' \<mapsto> PStr ''all'', ''callback_type'' \<mapsto> PStr ''kernelci''])
   \<and> snd (add_callback_params [''plan'' \<mapsto> PStr ''login'']
     [''id'' \<mapsto> PStr ''kci-token'', ''type'' \<mapsto> PStr ''kernelci'',
      ''url'' \<mapsto> PStr ''https://api.example.org'', ''dataset'' \<mapsto> PStr ''all''])
       ''callback_name'' = Some (PStr ''lava/test'')
   \<and> add_callback_params [''plan'' \<mapsto> PStr ''boot'']
     [''id'' \<mapsto> PStr ''kci-token'', ''type'' \<mapsto> PStr ''custom'',
      ''url'' \<mapsto> PStr ''https://api.example.org'', ''dataset'' \<mapsto> PStr ''all'']
   = (Inr (), [''plan'' \<mapsto> PStr ''boot'', ''callback'' \<mapsto> PStr ''kci-token'',
               ''callback_url'' \<mapsto> PStr ''https://api.example.org'',
               ''callback_dataset'' \<mapsto> PStr ''all'', ''callback_type'' \<mapsto> PStr ''custom''])
   \<and> add_callback_params [''plan'' \<mapsto> PStr ''boot'']
     [''id'' \<mapsto> PStr [], ''type'' \<mapsto> PStr ''kernelci'',
      ''url'' \<mapsto> PStr ''https://api.example.org'', ''dataset'' \<mapsto> PStr ''all'']
   = (Inr (), [''plan'' \<mapsto> PStr ''boot''])"
  using add_callback_params_injection
      [of "[''id'' \<mapsto> PStr ''kci-token'', ''type'' \<mapsto> PStr ''kernelci'',
            ''url'' \<mapsto> PStr ''https://api.example.org'', ''dataset'' \<mapsto> PStr ''all'']"
          "[''plan'' \<mapsto> PStr ''boot'']" "PStr ''boot''"
          "PStr ''https://api.example.org''" "PStr ''all''"]
    add_callback_params_injection
      [of "[''id'' \<mapsto> PStr ''kci-token'', ''type'' \<mapsto> PStr ''kernelci'',
            ''url'' \<mapsto> PStr ''https://api.example.org'', ''dataset'' \<mapsto> PStr ''all'']"
          "[''plan'' \<mapsto> PStr ''login'']" "PStr ''login''"
          "PStr ''https://api.example.org''" "PStr ''all''"]
    add_callback_params_injection
      [of "[''id'' \<mapsto> PStr ''kci-token'', ''type'' \<mapsto> PStr ''custom'',
            ''url'' \<mapsto> PStr ''https://api.example.org'', ''dataset'' \<mapsto> PStr ''all'']"
          "[''plan'' \<mapsto> PStr ''boot'']" "PStr ''boot''"
          "PStr ''https://api.example.org''" "PStr ''all''"]
    add_callback_params_injection
      [of "[''id'' \<mapsto> PStr [], ''type'' \<mapsto> PStr ''kernelci'',
            ''url'' \<mapsto> PStr ''https://api.example.org'', ''dataset'' \<mapsto> PStr ''all'']"
          "[''plan'' \<mapsto> PStr ''boot'']" "PStr ''boot''"
          "PStr ''https://api.example.org''" "PStr ''all''"]
  by (simp add: dict_get_def)

section \<open>Job file name: properties\<close>

text \<open>
  Claim C8. When \<^verbatim>\<open>params['name']\<close> is a string \<open>X\<close>, \<^verbatim>\<open>job_file_name\<close> returns
  \<open>X\<close> followed by \<^verbatim>\<open>.yaml\<close>, and two dictionaries with the same \<^verbatim>\<open>name\<close> entry
  give the same result.
\<close>

theorem job_file_name_yaml:
  "(ps ''name'' = Some (PStr X) \<longrightarrow> job_file_name ps = Inr (X @ ''.yaml''))
   \<and> (ps ''name'' = ps' ''name'' \<longrightarrow> job_file_name ps = job_file_name ps')"
  by (simp add: job_file_name_def getitem_def bind_def join_vals_def)

theorem job_file_name_yaml_witness:
  "job_file_name [''name'' \<mapsto> PStr ''baseline-qemu'', ''plan'' \<mapsto> PStr ''boot'']
     = Inr ''baseline-qemu.yaml''
   \<and> job_file_name [''name'' \<mapsto> PStr ''baseline-qemu'', ''arch'' \<mapsto> PStr ''arm'']
     = job_file_name [''name'' \<mapsto> PStr ''baseline-qemu'', ''plan'' \<mapsto> PStr ''boot'']"
  using job_file_name_yaml
      [of "[''name'' \<mapsto> PStr ''baseline-qemu'', ''plan'' \<mapsto> PStr ''boot'']" "''baseline-qemu''"
          "[''name'' \<mapsto> PStr ''baseline-qemu'', ''arch'' \<mapsto> PStr ''arm'']"]
  by auto

end
